theory Spec2Isabelle
  imports Complex_Main "HOL-Library.Sublist"
begin

section \<open>Recruitment agent: matching engine, bulk ingestion and resume parser\<close>

text \<open>
  The theory embeds three modules of the repository:
  \<^item> \<open>matching_engine.py\<close> (class \<open>MatchingEngine\<close>),
  \<^item> \<open>bulk_processor.py\<close> (class \<open>BulkProcessor\<close>),
  \<^item> \<open>resume_parser.py\<close> (class \<open>ResumeParser\<close>).

  Conventions of the embedding.
  \<^item> A Python \<open>float\<close> is the rational number that the IEEE 754 double denotes. A
    decimal literal such as \<open>0.8\<close> is \<open>fl (8 / 10)\<close>, the double nearest to it, and
    every arithmetic operation rounds its exact result with \<open>fl\<close> (round to nearest,
    ties to even, 53 significant bits). The exponent range of doubles is not modelled:
    all values here are far inside it.
  \<^item> Python \<open>int\<close> is \<open>int\<close>.
  \<^item> Python \<open>str\<close> is \<open>string\<close>, the list of its code points, for text whose code
    points are below 256 (Latin-1).
  \<^item> \<open>Optional[t]\<close> is \<open>t option\<close>; a dictionary with a fixed set of keys is a record.
  \<^item> Logging and wall-clock time (\<open>time.time()\<close>, \<open>datetime.now()\<close>) are left out.
  \<^item> The database, the base64 decoder, the document decoders and the regular-expression
    engine are collaborators outside the repository: they are parameters of the functions
    that call them, and a call that can raise returns \<open>error + 'a\<close>.
\<close>

subsection \<open>Python strings\<close>

definition lower_char :: "char \<Rightarrow> char" where
  "lower_char c =
     (let n = of_char c :: nat in if 65 \<le> n \<and> n \<le> 90 then char_of (n + 32) else c)"

definition lower :: "string \<Rightarrow> string" where
  "lower s = map lower_char s"

text \<open>\<open>part in s\<close> for strings: \<open>part\<close> occurs in \<open>s\<close> as a contiguous substring.\<close>

fun py_in :: "string \<Rightarrow> string \<Rightarrow> bool" where
  "py_in part [] = (part = [])"
| "py_in part (c # cs) = (prefix part (c # cs) \<or> py_in part cs)"

definition is_space :: "char \<Rightarrow> bool" where
  "is_space c = (c \<in> set [CHR '' '', CHR 0x09, CHR 0x0A, CHR 0x0B, CHR 0x0C, CHR 0x0D])"

definition strip :: "string \<Rightarrow> string" where
  "strip s = rev (dropWhile is_space (rev (dropWhile is_space s)))"

text \<open>\<open>s.split(sep)\<close> for a one-character separator: never empty, keeps empty fields.\<close>

fun split_on :: "char \<Rightarrow> string \<Rightarrow> string list" where
  "split_on sep [] = [[]]"
| "split_on sep (c # cs) =
     (if c = sep then [] # split_on sep cs
      else (case split_on sep cs of
              [] \<Rightarrow> [[c]]
            | w # ws \<Rightarrow> (c # w) # ws))"

text \<open>\<open>sep.join(xs)\<close>.\<close>

fun join :: "string \<Rightarrow> string list \<Rightarrow> string" where
  "join sep [] = []"
| "join sep [x] = x"
| "join sep (x # y # ys) = x @ sep @ join sep (y # ys)"

definition digit_char :: "nat \<Rightarrow> char" where
  "digit_char d = char_of (48 + d)"

text \<open>\<open>str(n)\<close> for a natural number, as the f-strings print a length.\<close>

function str_nat :: "nat \<Rightarrow> string" where
  "str_nat n = (if n < 10 then [digit_char n] else str_nat (n div 10) @ [digit_char (n mod 10)])"
  by pat_completeness auto
termination
  by (relation "measure id") auto

declare str_nat.simps [simp del]

subsection \<open>Python floats\<close>

text \<open>The integer nearest to \<open>x\<close>, the even one of the two when \<open>x\<close> is half-way.\<close>

definition round_half_even :: "rat \<Rightarrow> int" where
  "round_half_even x =
     (let n = \<lfloor>x\<rfloor>; r = x - of_int n
      in if r < 1 / 2 then n else if 1 / 2 < r then n + 1 else if even n then n else n + 1)"

text \<open>The binary exponent of a positive \<open>x\<close>: \<open>2 powi (expo x) \<le> x < 2 powi (expo x + 1)\<close>.\<close>

function expo :: "rat \<Rightarrow> int" where
  "expo x = (if x \<le> 0 then 0
             else if 2 \<le> x then expo (x / 2) + 1
             else if x < 1 then expo (2 * x) - 1
             else 0)"
  by pat_completeness auto
termination
proof (relation "measure (\<lambda>x. 2 * nat \<lceil>1 / x\<rceil> + nat \<lfloor>x\<rfloor>)")
  show "wf (measure (\<lambda>x::rat. 2 * nat \<lceil>1 / x\<rceil> + nat \<lfloor>x\<rfloor>))"
    by simp
next
  fix x :: rat
  assume a: "\<not> x \<le> 0" "2 \<le> x"
  have 1: "\<lceil>1 / x\<rceil> = 1"
    using a by (intro ceiling_unique) (simp_all add: field_simps)
  have 2: "\<lceil>1 / (x / 2)\<rceil> = 1"
    using a by (intro ceiling_unique) (simp_all add: field_simps)
  have "x / 2 \<le> x - 1" using a by simp
  then have "\<lfloor>x / 2\<rfloor> \<le> \<lfloor>x - 1\<rfloor>" by (rule floor_mono)
  then have 3: "\<lfloor>x / 2\<rfloor> < \<lfloor>x\<rfloor>" by simp
  have 4: "0 \<le> \<lfloor>x / 2\<rfloor>" using a by simp
  have 5: "nat \<lfloor>x / 2\<rfloor> < nat \<lfloor>x\<rfloor>"
    using 3 4 by linarith
  show "(x / 2, x) \<in> measure (\<lambda>x. 2 * nat \<lceil>1 / x\<rceil> + nat \<lfloor>x\<rfloor>)"
    using 1 2 5 by simp
next
  fix x :: rat
  assume a: "\<not> x \<le> 0" "\<not> 2 \<le> x" "x < 1"
  have g: "\<lfloor>2 * x\<rfloor> \<le> 1"
  proof -
    have "2 * x < 2" using a by simp
    then have "\<lfloor>2 * x\<rfloor> < 2" by (simp add: floor_less_iff)
    then show ?thesis by simp
  qed
  have t: "1 < 1 / x" using a by (simp add: field_simps)
  have c: "\<lceil>1 / (2 * x)\<rceil> < \<lceil>1 / x\<rceil>"
  proof (cases "1 / x \<le> 2")
    case True
    then have "\<lceil>1 / x\<rceil> = 2" using t by (intro ceiling_unique) simp_all
    moreover have "\<lceil>1 / (2 * x)\<rceil> = 1"
      using True t a by (intro ceiling_unique) (simp_all add: field_simps)
    ultimately show ?thesis by simp
  next
    case False
    then have "1 / (2 * x) \<le> 1 / x - 1" using a by (simp add: field_simps)
    then have "\<lceil>1 / (2 * x)\<rceil> \<le> \<lceil>1 / x - 1\<rceil>" by (rule ceiling_mono)
    then show ?thesis by simp
  qed
  have p: "0 < \<lceil>1 / (2 * x)\<rceil>" using a by (simp add: field_simps)
  have c': "nat \<lceil>1 / (2 * x)\<rceil> < nat \<lceil>1 / x\<rceil>"
    using c p by linarith
  have g': "nat \<lfloor>2 * x\<rfloor> \<le> 1"
    using g by linarith
  have "2 * nat \<lceil>1 / (2 * x)\<rceil> + nat \<lfloor>2 * x\<rfloor> < 2 * nat \<lceil>1 / x\<rceil> + nat \<lfloor>x\<rfloor>"
    using c' g' by linarith
  then show "(2 * x, x) \<in> measure (\<lambda>x. 2 * nat \<lceil>1 / x\<rceil> + nat \<lfloor>x\<rfloor>)"
    by simp
qed

declare expo.simps [simp del]

text \<open>
  The double nearest to \<open>x\<close>: \<open>x\<close> is rounded to a multiple of the unit in the last
  place of its binade, \<open>2 powi (expo \<bar>x\<bar> - 52)\<close>.
\<close>

definition fl :: "rat \<Rightarrow> rat" where
  "fl x = (let u = 2 powi (expo \<bar>x\<bar> - 52) in of_int (round_half_even (x / u)) * u)"

text \<open>
  The float operations \<open>+\<close>, \<open>-\<close>, \<open>*\<close> and \<open>/\<close>, and the conversion of an \<open>int\<close>
  operand. \<open>int / int\<close> is the correctly rounded quotient, \<open>fl (a / b)\<close>.
\<close>

definition fadd :: "rat \<Rightarrow> rat \<Rightarrow> rat" where
  "fadd a b = fl (a + b)"

definition fsub :: "rat \<Rightarrow> rat \<Rightarrow> rat" where
  "fsub a b = fl (a - b)"

definition fmul :: "rat \<Rightarrow> rat \<Rightarrow> rat" where
  "fmul a b = fl (a * b)"

definition fdiv :: "rat \<Rightarrow> rat \<Rightarrow> rat" where
  "fdiv a b = fl (a / b)"

definition float_of_int :: "int \<Rightarrow> rat" where
  "float_of_int i = fl (of_int i)"

text \<open>
  \<open>round(x, ndigits)\<close> on a float: the exact value of \<open>x\<close> is rounded to \<open>ndigits\<close>
  decimals, ties to even, and the result is the double nearest to that decimal.
\<close>

definition py_round :: "rat \<Rightarrow> nat \<Rightarrow> rat" where
  "py_round x ndigits = fl (of_int (round_half_even (x * 10 ^ ndigits)) / 10 ^ ndigits)"

subsection \<open>\<open>MatchingEngine\<close>: configuration\<close>

text \<open>The entries of \<open>self.skill_weights\<close> that are read.\<close>

definition exact_match :: rat where "exact_match = fl 1"
definition related_match :: rat where "related_match = fl (7 / 10)"
definition category_match :: rat where "category_match = fl (5 / 10)"

text \<open>The dictionary \<open>self.skill_relationships\<close>, in the order of the source.\<close>

definition skill_relationships :: "(string \<times> string list) list" where
  "skill_relationships =
     [(''React'', [''JavaScript'', ''JSX'', ''Redux'', ''HTML'', ''CSS'']),
      (''Angular'', [''TypeScript'', ''JavaScript'', ''HTML'', ''CSS'', ''RxJS'']),
      (''Vue.js'', [''JavaScript'', ''HTML'', ''CSS'', ''Vuex'']),
      (''Python'', [''Django'', ''Flask'', ''FastAPI'', ''NumPy'', ''Pandas'']),
      (''Java'', [''Spring'', ''Hibernate'', ''Maven'', ''Gradle'']),
      (''Node.js'', [''JavaScript'', ''Express'', ''npm'', ''REST APIs'']),
      (''AWS'', [''Cloud Computing'', ''EC2'', ''S3'', ''Lambda'', ''RDS'']),
      (''Docker'', [''Containerization'', ''Kubernetes'', ''DevOps'']),
      (''Machine Learning'', [''Python'', ''TensorFlow'', ''PyTorch'', ''Scikit-learn'']),
      (''Data Science'', [''Python'', ''R'', ''Pandas'', ''NumPy'', ''Statistics''])]"

subsection \<open>\<open>_find_related_skill_match\<close> and \<open>_calculate_skill_match\<close>\<close>

definition forward_related :: "string \<Rightarrow> string list \<Rightarrow> bool" where
  "forward_related required_skill candidate_skills_lower =
     (case map_of skill_relationships required_skill of
        None \<Rightarrow> False
      | Some rel \<Rightarrow> \<exists>related \<in> set (map lower rel). related \<in> set candidate_skills_lower)"

definition reverse_related :: "string \<Rightarrow> string list \<Rightarrow> bool" where
  "reverse_related required_lower candidate_skills =
     (\<exists>candidate_skill \<in> set candidate_skills.
        case map_of skill_relationships candidate_skill of
          None \<Rightarrow> False
        | Some rel \<Rightarrow> required_lower \<in> set (map lower rel))"

definition partial_related :: "string \<Rightarrow> string list \<Rightarrow> bool" where
  "partial_related required_lower candidate_skills_lower =
     (\<exists>part \<in> set candidate_skills_lower. 3 < length part \<and> py_in part required_lower)"

definition find_related_skill_match :: "string \<Rightarrow> string list \<Rightarrow> rat" where
  "find_related_skill_match required_skill candidate_skills =
     (let required_lower = lower required_skill;
          candidate_skills_lower = map lower candidate_skills
      in if forward_related required_skill candidate_skills_lower then related_match
         else if reverse_related required_lower candidate_skills then related_match
         else if partial_related required_lower candidate_skills_lower then category_match
         else 0)"

text \<open>
  The award of one required skill: the body of the loop over \<open>required_skills\<close> up to
  \<open>total_score += skill_score\<close>; the Boolean says whether the skill is appended to
  \<open>matching_skills\<close> (otherwise to \<open>missing_skills\<close>).
\<close>

definition skill_award :: "string list \<Rightarrow> string \<Rightarrow> rat \<times> bool" where
  "skill_award candidate_skills req_skill =
     (if lower req_skill \<in> set (map lower candidate_skills) then (exact_match, True)
      else (let related_score = find_related_skill_match req_skill candidate_skills
            in if 0 < related_score then (related_score, True) else (0, False)))"

text \<open>The loop over the required skills, threading (matching, missing, total_score).\<close>

fun required_loop ::
  "string list \<Rightarrow> string list \<Rightarrow> string list \<times> string list \<times> rat
     \<Rightarrow> string list \<times> string list \<times> rat" where
  "required_loop candidate_skills [] acc = acc"
| "required_loop candidate_skills (req_skill # rest) (matching, missing, total_score) =
     (case skill_award candidate_skills req_skill of
        (skill_score, True) \<Rightarrow>
          required_loop candidate_skills rest
            (matching @ [req_skill], missing, fadd total_score skill_score)
      | (skill_score, False) \<Rightarrow>
          required_loop candidate_skills rest
            (matching, missing @ [req_skill], fadd total_score skill_score))"

text \<open>The loop over the preferred skills, threading (preferred_bonus, matching).\<close>

fun preferred_loop ::
  "string list \<Rightarrow> string list \<Rightarrow> rat \<times> string list \<Rightarrow> rat \<times> string list" where
  "preferred_loop candidate_skills_lower [] acc = acc"
| "preferred_loop candidate_skills_lower (pref_skill # rest) (bonus, matching) =
     (if lower pref_skill \<in> set candidate_skills_lower
      then preferred_loop candidate_skills_lower rest
             (fadd bonus (fl (1 / 10)),
              if pref_skill \<notin> set matching then matching @ [pref_skill] else matching)
      else preferred_loop candidate_skills_lower rest (bonus, matching))"

definition calculate_skill_match ::
  "string list \<Rightarrow> string list \<Rightarrow> string list \<Rightarrow> rat \<times> string list \<times> string list" where
  "calculate_skill_match candidate_skills required_skills preferred_skills =
     (if required_skills = [] then (1, [], [])
      else
        (case required_loop candidate_skills required_skills ([], [], 0) of
           (matching0, missing_skills, total_score) \<Rightarrow>
             (case preferred_loop (map lower candidate_skills) preferred_skills (0, matching0) of
                (preferred_bonus, matching_skills) \<Rightarrow>
                  (let required_score =
                         fdiv total_score (float_of_int (int (length required_skills)));
                       final_score = min (fadd required_score preferred_bonus) 1
                   in (final_score, matching_skills, missing_skills)))))"

subsection \<open>\<open>_calculate_experience_match\<close>\<close>

definition calculate_experience_match ::
  "int \<Rightarrow> int option \<Rightarrow> int option \<Rightarrow> rat \<times> string \<times> int" where
  "calculate_experience_match candidate_years min_years0 max_years0 =
     (let min_years = (case min_years0 of None \<Rightarrow> 0 | Some m \<Rightarrow> m);
          max_years = (case max_years0 of None \<Rightarrow> 20 | Some m \<Rightarrow> m)
      in if candidate_years < min_years then
           (let gap = min_years - candidate_years
            in ((if gap \<le> 1 then fl (8 / 10)
                 else if gap \<le> 2 then fl (6 / 10)
                 else max (fl (2 / 10)) (fsub 1 (fmul (float_of_int gap) (fl (2 / 10))))),
                ''Under-qualified'', gap))
         else if max_years < candidate_years then
           (let gap = candidate_years - max_years
            in ((if gap \<le> 2 then fl (9 / 10)
                 else if gap \<le> 5 then fl (8 / 10)
                 else fl (7 / 10)),
                ''Over-qualified'', gap))
         else (1, ''Perfect'', 0))"

subsection \<open>Truthiness of optional values\<close>

text \<open>
  \<open>if not x\<close> on an \<open>Optional[str]\<close> or \<open>Optional[int]\<close> treats \<open>None\<close> like the empty
  string or like 0, and the value is read only after that test: the functions below read
  \<open>None\<close> as \<open>''''\<close> and as \<open>0\<close>.
\<close>

definition str_or_empty :: "string option \<Rightarrow> string" where
  "str_or_empty x = (case x of None \<Rightarrow> [] | Some s \<Rightarrow> s)"

definition int_or_zero :: "int option \<Rightarrow> int" where
  "int_or_zero x = (case x of None \<Rightarrow> 0 | Some n \<Rightarrow> n)"

subsection \<open>\<open>_calculate_location_match\<close>\<close>

definition calculate_location_match ::
  "string option \<Rightarrow> string option \<Rightarrow> bool \<Rightarrow> rat \<times> bool" where
  "calculate_location_match candidate_location0 job_location0 remote_ok =
     (if remote_ok then (1, True)
      else if str_or_empty job_location0 = [] \<or> str_or_empty candidate_location0 = []
      then (fl (7 / 10), True)
      else
        (let candidate_location = lower (str_or_empty candidate_location0);
             job_location = lower (str_or_empty job_location0)
         in if candidate_location = job_location then (1, True)
            else
              (let candidate_parts = split_on CHR '','' candidate_location;
                   job_parts = split_on CHR '','' job_location
               in if 2 \<le> length candidate_parts \<and> 2 \<le> length job_parts \<and>
                     strip (last candidate_parts) = strip (last job_parts) then (fl (8 / 10), True)
                  else if 2 \<le> length candidate_parts \<and> 2 \<le> length job_parts \<and>
                     strip (hd candidate_parts) = strip (hd job_parts) then (fl (9 / 10), True)
                  else if \<exists>part \<in> set candidate_parts. py_in (strip part) job_location
                  then (fl (6 / 10), True)
                  else (fl (3 / 10), False))))"

subsection \<open>\<open>_calculate_education_match\<close>\<close>

definition education_hierarchy :: "(string \<times> int) list" where
  "education_hierarchy =
     [(''High School'', 1), (''Associates'', 2), (''Bachelors'', 3), (''Masters'', 4), (''PhD'', 5)]"

definition calculate_education_match :: "string option \<Rightarrow> string option \<Rightarrow> rat" where
  "calculate_education_match candidate_education job_education =
     (if str_or_empty job_education = [] then 1
      else if str_or_empty candidate_education = [] then fl (5 / 10)
      else
        (let candidate_level =
               (case map_of education_hierarchy (str_or_empty candidate_education) of
                  None \<Rightarrow> 0 | Some l \<Rightarrow> l);
             job_education_lower = lower (str_or_empty job_education);
             job_req_level =
               (if py_in ''phd'' job_education_lower \<or> py_in ''doctorate'' job_education_lower
                then 5
                else if py_in ''master'' job_education_lower then 4
                else if py_in ''bachelor'' job_education_lower then 3
                else if py_in ''associate'' job_education_lower then 2
                else (1::int))
         in if job_req_level \<le> candidate_level then 1
            else if candidate_level = job_req_level - 1 then fl (8 / 10)
            else fl (5 / 10)))"

subsection \<open>\<open>_calculate_salary_match\<close>\<close>

definition calculate_salary_match ::
  "int option \<Rightarrow> int option \<Rightarrow> int option \<Rightarrow> rat \<times> bool" where
  "calculate_salary_match candidate_expectation0 job_min0 job_max0 =
     (let candidate_expectation = int_or_zero candidate_expectation0;
          job_min = int_or_zero job_min0;
          job_max = int_or_zero job_max0
      in if candidate_expectation = 0 then (1, True)
         else if job_min = 0 \<and> job_max = 0 then (1, True)
         else if job_min \<noteq> 0 \<and> job_max \<noteq> 0 then
           (if job_min \<le> candidate_expectation \<and> candidate_expectation \<le> job_max then (1, True)
            else if candidate_expectation < job_min then (1, True)
            else
              (let gap_percent =
                     fl (of_int (candidate_expectation - job_max) / of_int job_max)
               in if gap_percent \<le> fl (1 / 10) then (fl (8 / 10), True)
                  else if gap_percent \<le> fl (2 / 10) then (fl (6 / 10), False)
                  else (fl (3 / 10), False)))
         else (fl (7 / 10), True))"

subsection \<open>\<open>_generate_recommendation\<close>\<close>

definition recommendation_tier :: "rat \<Rightarrow> string" where
  "recommendation_tier overall_score =
     (if fl (85 / 100) \<le> overall_score then ''Excellent Match''
      else if fl (75 / 100) \<le> overall_score then ''Strong Match''
      else if fl (65 / 100) \<le> overall_score then ''Good Match''
      else if fl (5 / 10) \<le> overall_score then ''Potential Match''
      else ''Poor Match'')"

definition generate_recommendation ::
  "rat \<Rightarrow> rat \<Rightarrow> rat \<Rightarrow> rat \<Rightarrow> string list \<Rightarrow> string list \<Rightarrow> string
     \<Rightarrow> string \<times> string list \<times> string list" where
  "generate_recommendation overall_score skill_score experience_score location_score
       matching_skills missing_skills experience_fit =
     (let reasons =
            (if fl (8 / 10) \<le> skill_score then [''Strong technical skill alignment'']
             else if fl (6 / 10) \<le> skill_score then [''Good skill match with some gaps'']
             else []) @
            (if fl (9 / 10) \<le> experience_score
             then [''Perfect experience level ('' @ experience_fit @ '')'']
             else if fl (7 / 10) \<le> experience_score then [''Appropriate experience level'']
             else []) @
            (if fl (9 / 10) \<le> location_score then [''Excellent location match''] else []) @
            (if 5 < length matching_skills then [''Extensive relevant skill set''] else []);
          concerns =
            (if skill_score < fl (6 / 10) then [''Significant skill gaps identified''] else []) @
            (if missing_skills \<noteq> [] then
               (if length missing_skills = 1
                then [''Missing required skill: '' @ hd missing_skills]
                else if length missing_skills \<le> 3
                then [''Missing skills: '' @ join '', '' missing_skills]
                else [''Missing '' @ str_nat (length missing_skills) @ '' required skills''])
             else []) @
            (if experience_fit = ''Under-qualified''
             then [''Below minimum experience requirement'']
             else if experience_fit = ''Over-qualified''
             then [''May be over-qualified for the role'']
             else []) @
            (if location_score < fl (5 / 10)
             then [''Location mismatch - may require relocation'']
             else [])
      in (recommendation_tier overall_score, reasons, concerns))"

subsection \<open>\<open>_calculate_match_score\<close>\<close>

text \<open>
  The candidate dictionary returned by \<open>get_candidates_for_matching\<close> (its \<open>skills\<close>
  already decoded to a list) and the job dictionary returned by \<open>_get_job_details\<close>, with
  the keys the engine reads.
\<close>

record candidate_dict =
  cd_id :: int
  cd_name :: string
  cd_email :: string
  cd_experience_years :: int
  cd_location :: "string option"
  cd_skills :: "string list"
  cd_education_level :: "string option"
  cd_salary_expectation :: "int option"

record job_dict =
  jd_id :: int
  jd_title :: string
  jd_required_skills :: "string list"
  jd_preferred_skills :: "string list"
  jd_experience_min :: "int option"
  jd_experience_max :: "int option"
  jd_location :: "string option"
  jd_remote_ok :: bool
  jd_education_requirements :: "string option"
  jd_salary_min :: "int option"
  jd_salary_max :: "int option"

text \<open>The dataclass \<open>MatchResult\<close> of \<open>models.py\<close> (without \<open>created_at\<close>).\<close>

record MatchResult =
  candidate_id :: int
  job_id :: int
  candidate_name :: string
  job_title :: string
  overall_match_score :: rat
  skill_match_score :: rat
  experience_match_score :: rat
  location_match_score :: rat
  education_match_score :: rat
  salary_match_score :: rat
  matching_skills :: "string list"
  missing_skills :: "string list"
  skill_gap_percentage :: rat
  experience_fit :: string
  experience_gap_years :: int
  location_compatibility :: bool
  salary_compatibility :: bool
  availability_match :: bool
  recommendation :: string
  match_reasons :: "string list"
  concern_areas :: "string list"

text \<open>
  The weighted sum of the five sub-scores, before \<open>round\<close>: the products are added from
  left to right, with the weights of the dictionary \<open>weights\<close>.
\<close>

definition weighted_overall :: "rat \<Rightarrow> rat \<Rightarrow> rat \<Rightarrow> rat \<Rightarrow> rat \<Rightarrow> rat" where
  "weighted_overall skill_score experience_score location_score education_score salary_score =
     fadd (fadd (fadd (fadd (fmul skill_score (fl (4 / 10)))
                            (fmul experience_score (fl (25 / 100))))
                      (fmul location_score (fl (15 / 100))))
                (fmul education_score (fl (1 / 10))))
          (fmul salary_score (fl (1 / 10)))"

definition calculate_match_score :: "candidate_dict \<Rightarrow> job_dict \<Rightarrow> MatchResult" where
  "calculate_match_score candidate job =
     (case calculate_skill_match (cd_skills candidate) (jd_required_skills job)
             (jd_preferred_skills job) of
        (skill_score, matching, missing) \<Rightarrow>
     (case calculate_experience_match (cd_experience_years candidate) (jd_experience_min job)
             (jd_experience_max job) of
        (experience_score, fit, experience_gap) \<Rightarrow>
     (case calculate_location_match (cd_location candidate) (jd_location job) (jd_remote_ok job) of
        (location_score, location_compatible) \<Rightarrow>
     (let education_score =
            calculate_education_match (cd_education_level candidate)
              (jd_education_requirements job)
      in
     (case calculate_salary_match (cd_salary_expectation candidate) (jd_salary_min job)
             (jd_salary_max job) of
        (salary_score, salary_compatible) \<Rightarrow>
     (let overall_score =
            weighted_overall skill_score experience_score location_score education_score
              salary_score
      in
     (case generate_recommendation overall_score skill_score experience_score location_score
             matching missing fit of
        (recommendation0, reasons, concerns) \<Rightarrow>
          \<lparr> candidate_id = cd_id candidate,
            job_id = jd_id job,
            candidate_name = cd_name candidate,
            job_title = jd_title job,
            overall_match_score = py_round overall_score 3,
            skill_match_score = py_round skill_score 3,
            experience_match_score = py_round experience_score 3,
            location_match_score = py_round location_score 3,
            education_match_score = py_round education_score 3,
            salary_match_score = py_round salary_score 3,
            matching_skills = matching,
            missing_skills = missing,
            skill_gap_percentage =
              py_round
                (fmul (fl (of_nat (length missing) /
                           of_nat (max (length (jd_required_skills job)) 1)))
                      (float_of_int 100)) 1,
            experience_fit = fit,
            experience_gap_years = experience_gap,
            location_compatibility = location_compatible,
            salary_compatibility = salary_compatible,
            availability_match = True,
            recommendation = recommendation0,
            match_reasons = reasons,
            concern_areas = concerns \<rparr>)))))))"

subsection \<open>\<open>find_best_matches\<close>\<close>







subsection \<open>Example data: scenario B of the specification\<close>



section \<open>Properties\<close>

subsection \<open>Rounding to the nearest double\<close>

text \<open>
  The facts about \<open>fl\<close> that the properties below use: it rounds within the binade of
  its argument, it is odd, and it is monotone.
\<close>

lemma rhe_bounds: "of_int (round_half_even x) \<le> x + 1 / 2 \<and> x - 1 / 2 \<le> of_int (round_half_even x)"
  unfolding round_half_even_def Let_def by (auto; linarith)

lemma rhe_of_int: "round_half_even (of_int n) = n"
  by (simp add: round_half_even_def)

lemma rhe_mono: "x \<le> y \<Longrightarrow> round_half_even x \<le> round_half_even y"
proof -
  assume xy: "x \<le> y"
  have fxy: "\<lfloor>x\<rfloor> \<le> \<lfloor>y\<rfloor>" using xy by (rule floor_mono)
  have ux: "round_half_even x \<le> \<lfloor>x\<rfloor> + 1" and ly: "\<lfloor>y\<rfloor> \<le> round_half_even y"
    by (simp_all add: round_half_even_def Let_def)
  show ?thesis
  proof (cases "\<lfloor>x\<rfloor> = \<lfloor>y\<rfloor>")
    case False
    then show ?thesis using fxy ux ly by linarith
  next
    case True
    then have "x - of_int \<lfloor>x\<rfloor> \<le> y - of_int \<lfloor>y\<rfloor>" using xy by simp
    then show ?thesis using True
      by (auto simp: round_half_even_def Let_def)
  qed
qed

lemma expo_bounds: "0 < x \<Longrightarrow> 2 powi (expo x) \<le> x \<and> x < 2 powi (expo x + 1)"
proof (induction x rule: expo.induct)
  case (1 x)
  show ?case
  proof (cases "2 \<le> x")
    case True
    with 1 have e: "expo x = expo (x / 2) + 1" by (simp add: expo.simps [of x])
    from 1 True have "2 powi (expo (x / 2)) \<le> x / 2 \<and> x / 2 < 2 powi (expo (x / 2) + 1)"
      by simp
    then show ?thesis unfolding e by (simp add: power_int_add field_simps)
  next
    case False
    show ?thesis
    proof (cases "x < 1")
      case True
      with 1 False have e: "expo x = expo (2 * x) - 1" by (simp add: expo.simps [of x])
      from 1 True False have "2 powi (expo (2 * x)) \<le> 2 * x \<and> 2 * x < 2 powi (expo (2 * x) + 1)"
        by simp
      then show ?thesis unfolding e by (simp add: power_int_add power_int_diff field_simps)
    next
      case f: False
      with 1 False have "expo x = 0" by (simp add: expo.simps [of x])
      with f False show ?thesis by simp
    qed
  qed
qed


lemma powi2_less_D: "(2::rat) powi a < 2 powi b \<Longrightarrow> a < b"
proof (rule ccontr)
  assume l: "(2::rat) powi a < 2 powi b" and "\<not> a < b"
  then have "b \<le> a" by simp
  then have "(2::rat) powi b \<le> 2 powi a" by (rule power_int_increasing) simp
  with l show False by simp
qed

lemma expo_unique:
  assumes "2 powi k \<le> x" and "x < 2 powi (k + 1)"
  shows "expo x = k"
proof -
  have p: "0 < x" using assms(1) by (smt (verit) zero_less_power_int zero_less_numeral less_le_trans)
  note b = expo_bounds [OF p]
  have "2 powi (expo x) < (2::rat) powi (k + 1)" using b assms by linarith
  then have 1: "expo x < k + 1" by (rule powi2_less_D)
  have "2 powi k < (2::rat) powi (expo x + 1)" using b assms by linarith
  then have 2: "k < expo x + 1" by (rule powi2_less_D)
  from 1 2 show ?thesis by simp
qed

lemma expo_mono: "0 < x \<Longrightarrow> x \<le> y \<Longrightarrow> expo x \<le> expo y"
proof -
  assume p: "0 < x" and xy: "x \<le> y"
  then have q: "0 < y" by simp
  have "2 powi (expo x) < (2::rat) powi (expo y + 1)"
    using expo_bounds [OF p] expo_bounds [OF q] xy by linarith
  then have "expo x < expo y + 1" by (rule powi2_less_D)
  then show ?thesis by simp
qed

text \<open>For positive x the rounded value stays inside the closed binade of x.\<close>

lemma fl_binade:
  assumes "0 < x"
  shows "2 powi (expo x) \<le> fl x \<and> fl x \<le> 2 powi (expo x + 1)"
proof -
  define e where "e = expo x"
  define u :: rat where "u = 2 powi (e - 52)"
  have u: "0 < u" by (simp add: u_def)
  have fx: "fl x = of_int (round_half_even (x / u)) * u"
    using assms by (simp add: fl_def Let_def u_def e_def)
  have b: "2 powi e \<le> x" "x < 2 powi (e + 1)"
    using expo_bounds [OF assms] by (simp_all add: e_def)
  have lo: "(2::rat) powi e = of_int (2 ^ 52) * u"
    by (simp add: u_def power_int_diff)
  have hi: "(2::rat) powi (e + 1) = of_int (2 ^ 53) * u"
    by (simp add: u_def power_int_diff power_int_add)
  have "of_int (2 ^ 52) \<le> x / u" using b(1) u unfolding lo by (simp add: field_simps)
  then have "round_half_even (of_int (2 ^ 52)) \<le> round_half_even (x / u)" by (rule rhe_mono)
  then have 1: "(2::int) ^ 52 \<le> round_half_even (x / u)" by (simp only: rhe_of_int)
  have "x / u \<le> of_int (2 ^ 53)" using b(2) u unfolding hi by (simp add: field_simps)
  then have "round_half_even (x / u) \<le> round_half_even (of_int (2 ^ 53))" by (rule rhe_mono)
  then have 2: "round_half_even (x / u) \<le> (2::int) ^ 53" by (simp only: rhe_of_int)
  from 1 have "(of_int (2 ^ 52) :: rat) \<le> of_int (round_half_even (x / u))"
    by (simp only: of_int_le_iff)
  then have l: "2 powi e \<le> fl x" unfolding lo fx using u by (simp add: mult_right_mono)
  from 2 have "(of_int (round_half_even (x / u)) :: rat) \<le> of_int (2 ^ 53)"
    by (simp only: of_int_le_iff)
  then have h: "fl x \<le> 2 powi (e + 1)" unfolding hi fx using u by (simp add: mult_right_mono)
  from l h show ?thesis by (simp add: e_def)
qed

lemma fl_zero: "fl 0 = 0"
  by (simp add: fl_def round_half_even_def)

lemma fl_minus: "fl (- x) = - fl x"
proof -
  have "round_half_even (- y) = - round_half_even y" for y :: rat
  proof (cases "y \<in> \<int>")
    case True
    then obtain n where "y = of_int n" by (auto elim: Ints_cases)
    then show ?thesis by (simp add: rhe_of_int flip: of_int_minus)
  next
    case False
    then have "y \<noteq> of_int \<lfloor>y\<rfloor>"
      by (metis Ints_of_int)
    then have f: "\<lfloor>- y\<rfloor> = - \<lfloor>y\<rfloor> - 1"
      by (simp add: floor_minus ceiling_altdef)
    show ?thesis
      unfolding round_half_even_def Let_def f by (auto; linarith?)
  qed
  then show ?thesis by (simp add: fl_def Let_def)
qed

lemma fl_pos_mono:
  assumes "0 < x" and "x \<le> y"
  shows "fl x \<le> fl y"
proof -
  have q: "0 < y" using assms by simp
  have e: "expo x \<le> expo y" using assms by (rule expo_mono)
  show ?thesis
  proof (cases "expo x = expo y")
    case True
    define u :: rat where "u = 2 powi (expo x - 52)"
    have u: "0 < u" by (simp add: u_def)
    have "x / u \<le> y / u" using assms(2) u by (simp add: divide_right_mono)
    then have "round_half_even (x / u) \<le> round_half_even (y / u)" by (rule rhe_mono)
    then have "(of_int (round_half_even (x / u)) :: rat) * u \<le> of_int (round_half_even (y / u)) * u"
      using u by (simp add: mult_right_mono)
    then show ?thesis
      using assms q True by (simp add: fl_def Let_def u_def)
  next
    case False
    with e have "expo x + 1 \<le> expo y" by simp
    then have "(2::rat) powi (expo x + 1) \<le> 2 powi (expo y)"
      by (simp add: power_int_increasing)
    then show ?thesis
      using fl_binade [OF assms(1)] fl_binade [OF q] by linarith
  qed
qed

lemma fl_nonneg: "0 \<le> x \<Longrightarrow> 0 \<le> fl x"
proof (cases "x = 0")
  case True
  then show ?thesis by (simp add: fl_zero)
next
  case False
  assume "0 \<le> x"
  with False have p: "0 < x" by simp
  have "(0::rat) \<le> 2 powi (expo x)" by simp
  then show ?thesis using fl_binade [OF p] by linarith
qed

theorem fl_mono: "x \<le> y \<Longrightarrow> fl x \<le> fl y"
proof -
  assume xy: "x \<le> y"
  consider "0 < x" | "x \<le> 0" "0 \<le> y" | "y < 0" by linarith
  then show ?thesis
  proof cases
    case 1
    then show ?thesis using xy by (rule fl_pos_mono)
  next
    case 2
    have "fl x = - fl (- x)" by (simp add: fl_minus)
    moreover have "0 \<le> fl (- x)" using 2 by (intro fl_nonneg) simp
    moreover have "0 \<le> fl y" using 2 by (intro fl_nonneg)
    ultimately show ?thesis by linarith
  next
    case 3
    then have "fl (- y) \<le> fl (- x)" using xy by (intro fl_pos_mono) simp_all
    then show ?thesis by (simp add: fl_minus)
  qed
qed


subsection \<open>Experience sub-score\<close>

text \<open>The doubles that the experience score takes, as fractions.\<close>

lemma fl_02: "fl (2 / 10) = 3602879701896397 / 18014398509481984"
  by code_simp

lemma fl_06: "fl (6 / 10) = 5404319552844595 / 9007199254740992"
  by code_simp

lemma fl_07: "fl (7 / 10) = 3152519739159347 / 4503599627370496"
  by code_simp

lemma fl_08: "fl (8 / 10) = 3602879701896397 / 4503599627370496"
  by code_simp

lemma fl_09: "fl (9 / 10) = 8106479329266893 / 9007199254740992"
  by code_simp

text \<open>The same, on the normal form of the fractions.\<close>

lemma fl_15: "fl (1 / 5) = 3602879701896397 / 18014398509481984"
  using fl_02 by simp

lemma fl_35: "fl (3 / 5) = 5404319552844595 / 9007199254740992"
  using fl_06 by simp

lemma fl_45: "fl (4 / 5) = 3602879701896397 / 4503599627370496"
  using fl_08 by simp

lemma fl_710: "fl (7 / 10) = 3152519739159347 / 4503599627370496"
  using fl_07 by simp

lemma fl_910: "fl (9 / 10) = 8106479329266893 / 9007199254740992"
  using fl_09 by simp

text \<open>\<open>1.0 - 3 * 0.2\<close> is \<open>0.3999999999999999\<close>, the double below \<open>0.4\<close>.\<close>

lemma under_formula_3:
  "fsub 1 (fmul (float_of_int 3) (fl (2 / 10))) = 900719925474099 / 2251799813685248"
  by code_simp

lemma fl_4: "fl 4 = 4"
  by code_simp

lemma fl_4_times_02: "fl (4 * (3602879701896397 / 18014398509481984)) = 3602879701896397 / 4503599627370496"
  by code_simp

lemma fl_1_minus_08: "fl (1 - 3602879701896397 / 4503599627370496) = 900719925474099 / 4503599627370496"
  by code_simp

text \<open>From a gap of 4 years on, \<open>1.0 - gap * 0.2\<close> is below \<open>0.2\<close>.\<close>

lemma under_formula_floor:
  assumes "4 \<le> gap"
  shows "fsub 1 (fmul (float_of_int gap) (fl (2 / 10))) < fl (2 / 10)"
proof -
  have "fl 4 \<le> fl (of_int gap)"
    using assms by (intro fl_mono) simp
  then have g: "4 \<le> float_of_int gap"
    by (simp add: float_of_int_def fl_4)
  have "fl (4 * (3602879701896397 / 18014398509481984))
          \<le> fl (float_of_int gap * (3602879701896397 / 18014398509481984))"
    using g by (intro fl_mono) simp
  then have p: "3602879701896397 / 4503599627370496 \<le> fmul (float_of_int gap) (fl (2 / 10))"
    by (simp only: fmul_def fl_02 fl_4_times_02)
  have "fl (1 - fmul (float_of_int gap) (fl (2 / 10)))
          \<le> fl (1 - 3602879701896397 / 4503599627370496)"
    using p by (intro fl_mono) simp
  then have "fsub 1 (fmul (float_of_int gap) (fl (2 / 10))) \<le> 900719925474099 / 4503599627370496"
    by (simp only: fsub_def fl_1_minus_08)
  then show ?thesis
    by (simp add: fl_15)
qed

text \<open>
  The score below the minimum, for each gap: \<open>0.8\<close>, \<open>0.6\<close>, \<open>0.3999999999999999\<close>, and
  \<open>0.2\<close> from a gap of 4 on.
\<close>

lemma experience_under_values:
  assumes "years < mn"
  shows "fst (calculate_experience_match years (Some mn) mx0) =
     (if mn - years \<le> 1 then 3602879701896397 / 4503599627370496
      else if mn - years = 2 then 5404319552844595 / 9007199254740992
      else if mn - years = 3 then 900719925474099 / 2251799813685248
      else 3602879701896397 / 18014398509481984)"
proof -
  have "mn - years \<le> 1 \<or> mn - years = 2 \<or> mn - years = 3 \<or> 4 \<le> mn - years"
    by arith
  then show ?thesis
  proof (elim disjE)
    assume "mn - years \<le> 1"
    then show ?thesis
      using assms by (simp add: calculate_experience_match_def Let_def fl_45)
  next
    assume "mn - years = 2"
    then show ?thesis
      using assms by (simp add: calculate_experience_match_def Let_def fl_35)
  next
    assume "mn - years = 3"
    then show ?thesis
      using assms under_formula_3 by (simp add: calculate_experience_match_def Let_def fl_15)
  next
    assume a: "4 \<le> mn - years"
    have "max (fl (2 / 10)) (fsub 1 (fmul (float_of_int (mn - years)) (fl (2 / 10)))) = fl (2 / 10)"
      using under_formula_floor [OF a] by (simp add: max_def)
    then show ?thesis
      using assms a by (simp add: calculate_experience_match_def Let_def fl_15)
  qed
qed

text \<open>The score above the maximum of a range, for each gap: \<open>0.9\<close>, \<open>0.8\<close> and \<open>0.7\<close>.\<close>

lemma experience_over_values:
  assumes "mn \<le> mx" and "mx < years"
  shows "fst (calculate_experience_match years (Some mn) (Some mx)) =
     (if years - mx \<le> 2 then 8106479329266893 / 9007199254740992
      else if years - mx \<le> 5 then 3602879701896397 / 4503599627370496
      else 3152519739159347 / 4503599627370496)"
  using assms by (simp add: calculate_experience_match_def Let_def fl_910 fl_45 fl_710)

text \<open>
  Claim C3. For integer bounds \<open>mn\<close> and \<open>mx\<close> the experience score is \<open>1.0\<close> exactly when
  \<open>mn \<le> years \<le> mx\<close>. Below the minimum, with gap \<open>g = mn - years\<close>, the result is \<open>0.8\<close>
  for \<open>g \<le> 1\<close>, \<open>0.6\<close> for \<open>g \<le> 2\<close> and \<open>max(0.2, 1.0 - 0.2 * g)\<close> otherwise, with fit
  \<open>Under-qualified\<close>; the formula is evaluated in floats, which gives
  \<open>0.3999999999999999\<close> at \<open>g = 3\<close> and the floor \<open>0.2\<close> from \<open>g = 4\<close> on. Above the maximum
  of a range \<open>mn \<le> mx\<close>, with gap \<open>g = years - mx\<close>, the result is \<open>0.9\<close> for \<open>g \<le> 2\<close>, \<open>0.8\<close>
  for \<open>g \<le> 5\<close> and \<open>0.7\<close> otherwise, with fit \<open>Over-qualified\<close>.
\<close>

theorem experience_match_piecewise:
  fixes years mn mx :: int
  shows
  "(fst (calculate_experience_match years (Some mn) (Some mx)) = 1 \<longleftrightarrow> mn \<le> years \<and> years \<le> mx) \<and>
   (years < mn \<longrightarrow>
      calculate_experience_match years (Some mn) (Some mx) =
        ((if mn - years \<le> 1 then fl (8 / 10)
          else if mn - years \<le> 2 then fl (6 / 10)
          else max (fl (2 / 10)) (fsub 1 (fmul (fl (2 / 10)) (float_of_int (mn - years))))),
         ''Under-qualified'', mn - years)) \<and>
   (years < mn \<and> mn - years = 3 \<longrightarrow>
      fst (calculate_experience_match years (Some mn) (Some mx)) =
        900719925474099 / 2251799813685248) \<and>
   (years < mn \<and> 4 \<le> mn - years \<longrightarrow>
      fst (calculate_experience_match years (Some mn) (Some mx)) = fl (2 / 10)) \<and>
   (mn \<le> mx \<and> mx < years \<longrightarrow>
      calculate_experience_match years (Some mn) (Some mx) =
        ((if years - mx \<le> 2 then fl (9 / 10) else if years - mx \<le> 5 then fl (8 / 10) else fl (7 / 10)),
         ''Over-qualified'', years - mx))"
proof (intro conjI impI)
  show "fst (calculate_experience_match years (Some mn) (Some mx)) = 1 \<longleftrightarrow> mn \<le> years \<and> years \<le> mx"
  proof (cases "years < mn")
    case True
    then show ?thesis
      by (simp add: experience_under_values)
  next
    case False
    then show ?thesis
      by (simp add: calculate_experience_match_def Let_def fl_910 fl_45 fl_710)
  qed
next
  assume "years < mn"
  then show "calculate_experience_match years (Some mn) (Some mx) =
        ((if mn - years \<le> 1 then fl (8 / 10)
          else if mn - years \<le> 2 then fl (6 / 10)
          else max (fl (2 / 10)) (fsub 1 (fmul (fl (2 / 10)) (float_of_int (mn - years))))),
         ''Under-qualified'', mn - years)"
    by (simp add: calculate_experience_match_def Let_def fmul_def mult.commute)
next
  assume "years < mn \<and> mn - years = 3"
  then show "fst (calculate_experience_match years (Some mn) (Some mx)) =
        900719925474099 / 2251799813685248"
    by (simp add: experience_under_values)
next
  assume "years < mn \<and> 4 \<le> mn - years"
  then show "fst (calculate_experience_match years (Some mn) (Some mx)) = fl (2 / 10)"
    by (simp add: experience_under_values fl_15)
next
  assume "mn \<le> mx \<and> mx < years"
  then show "calculate_experience_match years (Some mn) (Some mx) =
        ((if years - mx \<le> 2 then fl (9 / 10) else if years - mx \<le> 5 then fl (8 / 10) else fl (7 / 10)),
         ''Over-qualified'', years - mx)"
    by (simp add: calculate_experience_match_def Let_def)
qed

text \<open>
  C3 inside the range \<open>[3, 6]\<close>, at the gaps 3 and 4 below \<open>[5, 10]\<close> and \<open>[5, 8]\<close>, and at
  the gap 3 above \<open>[3, 6]\<close>.
\<close>

theorem experience_match_piecewise_witness:
  "fst (calculate_experience_match 4 (Some 3) (Some 6)) = 1 \<and>
   calculate_experience_match 2 (Some 5) (Some 10) =
     (900719925474099 / 2251799813685248, ''Under-qualified'', 3) \<and>
   calculate_experience_match 1 (Some 5) (Some 8) = (fl (2 / 10), ''Under-qualified'', 4) \<and>
   calculate_experience_match 9 (Some 3) (Some 6) = (fl (8 / 10), ''Over-qualified'', 3)"
  using experience_match_piecewise [of 4 3 6] experience_match_piecewise [of 2 5 10]
    experience_match_piecewise [of 1 5 8] experience_match_piecewise [of 9 3 6]
  by (simp add: prod_eq_iff)

text \<open>
  Claim C4, as the code has it. The experience score never increases with the gap, and it
  decreases strictly exactly across the steps of the table. For two values below the
  minimum, the one with the larger gap scores strictly less exactly when the smaller gap
  is at most 3: all gaps from 4 on score the floor \<open>0.2\<close>. For two values above the
  maximum of a range \<open>mn \<le> mx\<close>, the one with the larger gap scores strictly less exactly
  when the two gaps are in different bands (up to 2, 3 to 5, above 5).
\<close>

theorem experience_match_decreasing:
  fixes y1 y2 mn mx :: int
  shows
  "(y1 < mn \<and> y2 < mn \<and> mn - y1 < mn - y2 \<longrightarrow>
      fst (calculate_experience_match y2 (Some mn) (Some mx))
        \<le> fst (calculate_experience_match y1 (Some mn) (Some mx)) \<and>
      (fst (calculate_experience_match y2 (Some mn) (Some mx))
         < fst (calculate_experience_match y1 (Some mn) (Some mx)) \<longleftrightarrow> mn - y1 \<le> 3)) \<and>
   (mn \<le> mx \<and> mx < y1 \<and> mx < y2 \<and> y1 - mx < y2 - mx \<longrightarrow>
      fst (calculate_experience_match y2 (Some mn) (Some mx))
        \<le> fst (calculate_experience_match y1 (Some mn) (Some mx)) \<and>
      (fst (calculate_experience_match y2 (Some mn) (Some mx))
         < fst (calculate_experience_match y1 (Some mn) (Some mx)) \<longleftrightarrow>
       (y1 - mx \<le> 2 \<and> 2 < y2 - mx) \<or> (y1 - mx \<le> 5 \<and> 5 < y2 - mx)))"
proof (intro conjI impI)
  assume a: "y1 < mn \<and> y2 < mn \<and> mn - y1 < mn - y2"
  then show "fst (calculate_experience_match y2 (Some mn) (Some mx))
        \<le> fst (calculate_experience_match y1 (Some mn) (Some mx))"
    by (simp add: experience_under_values)
  from a show "fst (calculate_experience_match y2 (Some mn) (Some mx))
         < fst (calculate_experience_match y1 (Some mn) (Some mx)) \<longleftrightarrow> mn - y1 \<le> 3"
    by (simp add: experience_under_values)
next
  assume a: "mn \<le> mx \<and> mx < y1 \<and> mx < y2 \<and> y1 - mx < y2 - mx"
  then show "fst (calculate_experience_match y2 (Some mn) (Some mx))
        \<le> fst (calculate_experience_match y1 (Some mn) (Some mx))"
    by (simp add: experience_over_values)
  from a show "fst (calculate_experience_match y2 (Some mn) (Some mx))
         < fst (calculate_experience_match y1 (Some mn) (Some mx)) \<longleftrightarrow>
       (y1 - mx \<le> 2 \<and> 2 < y2 - mx) \<or> (y1 - mx \<le> 5 \<and> 5 < y2 - mx)"
    by (simp add: experience_over_values)
qed

text \<open>
  C4 at the gaps 3 and 4 below \<open>[5, 10]\<close> (strict), and at the gaps 2 and 7 above it
  (strict).
\<close>

theorem experience_match_decreasing_witness:
  "fst (calculate_experience_match 1 (Some 5) (Some 10))
     < fst (calculate_experience_match 2 (Some 5) (Some 10)) \<and>
   fst (calculate_experience_match 17 (Some 5) (Some 10))
     < fst (calculate_experience_match 12 (Some 5) (Some 10))"
  using experience_match_decreasing [of 2 5 1 10] experience_match_decreasing [of 12 5 17 10]
  by simp

text \<open>
  The score is not strictly decreasing in the gap: below \<open>[5, 10]\<close>, the gaps 4 and 5 both
  score \<open>0.2\<close>.
\<close>

theorem experience_strictly_decreasing_counterexample:
  "(1::int) < 5 \<and> (0::int) < 5 \<and> (5::int) - 1 < 5 - 0 \<and>
   \<not> fst (calculate_experience_match 0 (Some 5) (Some 10))
       < fst (calculate_experience_match 1 (Some 5) (Some 10))"
  by (simp add: experience_under_values)


subsection \<open>Scenario B of the specification\<close>

lemma fl_1: "fl 1 = 1"
  by code_simp

lemma fl_2: "fl 2 = 2"
  by code_simp

lemma fl_half: "fl (1 / 2) = 1 / 2"
  by code_simp

lemma fl_1720: "fl (17 / 20) = 7656119366529843 / 9007199254740992"
  by code_simp

lemma fl_34: "fl (3 / 4) = 3 / 4"
  by code_simp

lemma lower_Python: "lower ''Python'' = ''python''"
  by code_simp

lemma lower_React: "lower ''React'' = ''react''"
  by code_simp

lemma lower_SQL: "lower ''SQL'' = ''sql''"
  by code_simp

lemma scenario_B_related: "find_related_skill_match ''SQL'' [''Python'', ''React''] = 0"
  by code_simp

lemma scenario_B_skill:
  "calculate_skill_match [''Python'', ''React''] [''Python'', ''SQL''] []
     = (1 / 2, [''Python''], [''SQL''])"
  by (simp add: calculate_skill_match_def skill_award_def scenario_B_related lower_Python
      lower_React lower_SQL exact_match_def fadd_def fdiv_def float_of_int_def fl_1 fl_2
      fl_half fl_zero)

lemma py_round_1: "py_round 1 3 = 1"
  by code_simp

lemma py_round_half: "py_round (1 / 2) 3 = 1 / 2"
  by code_simp

text \<open>
  The weighted sum of scenario B is \<open>0.7999999999999999\<close>, the double below \<open>0.8\<close>;
  \<open>round(_, 3)\<close> makes it \<open>0.8\<close>.
\<close>

lemma scenario_B_weighted:
  "weighted_overall (1 / 2) 1 1 1 1 = 7205759403792793 / 9007199254740992"
  by code_simp

lemma scenario_B_rounded:
  "py_round (7205759403792793 / 9007199254740992) 3 = fl (8 / 10)"
  by code_simp

lemma scenario_B_tier:
  "recommendation_tier (7205759403792793 / 9007199254740992) = ''Strong Match''"
  by (simp add: recommendation_tier_def fl_1720 fl_34)

lemma scenario_B_fields:
  assumes "cd_skills c = [''Python'', ''React'']" and "cd_experience_years c = 4"
    and "jd_required_skills j = [''Python'', ''SQL'']" and "jd_preferred_skills j = []"
    and "jd_experience_min j = Some 3" and "jd_experience_max j = Some 6"
    and "jd_remote_ok j" and "jd_education_requirements j = None"
    and "jd_salary_min j = None" and "jd_salary_max j = None"
  shows "skill_match_score (calculate_match_score c j) = 1 / 2"
    and "missing_skills (calculate_match_score c j) = [''SQL'']"
    and "experience_match_score (calculate_match_score c j) = 1"
    and "location_match_score (calculate_match_score c j) = 1"
    and "education_match_score (calculate_match_score c j) = 1"
    and "salary_match_score (calculate_match_score c j) = 1"
    and "overall_match_score (calculate_match_score c j) = fl (8 / 10)"
    and "recommendation (calculate_match_score c j) = ''Strong Match''"
  using assms
  by (simp_all add: calculate_match_score_def scenario_B_skill calculate_experience_match_def
      calculate_location_match_def calculate_education_match_def calculate_salary_match_def
      str_or_empty_def int_or_zero_def generate_recommendation_def
      scenario_B_weighted scenario_B_rounded scenario_B_tier
      py_round_1 py_round_half Let_def)

text \<open>
  Claim C2. A candidate with skills Python and React and 4 years of experience, against a
  job that requires Python and SQL, with experience range 3 to 6, remote work allowed, no
  preferred skills, no education requirement and no salary range: the skill score is \<open>0.5\<close>
  and SQL is the missing skill, the experience, location, education and salary scores are
  \<open>1.0\<close>, the overall score is \<open>0.8\<close> and the recommendation is \<open>Strong Match\<close>. The
  other fields of the candidate and of the job are arbitrary.
\<close>

theorem scenario_B:
  "(let m = calculate_match_score
        (c\<lparr>cd_skills := [''Python'', ''React''], cd_experience_years := 4\<rparr>)
        (j\<lparr>jd_required_skills := [''Python'', ''SQL''], jd_preferred_skills := [],
           jd_experience_min := Some 3, jd_experience_max := Some 6, jd_remote_ok := True,
           jd_education_requirements := None, jd_salary_min := None, jd_salary_max := None\<rparr>)
    in skill_match_score m = 1 / 2 \<and> missing_skills m = [''SQL''] \<and>
       experience_match_score m = 1 \<and> location_match_score m = 1 \<and>
       education_match_score m = 1 \<and> salary_match_score m = 1 \<and>
       overall_match_score m = fl (8 / 10) \<and> recommendation m = ''Strong Match'')"
  by (simp add: Let_def scenario_B_fields)


subsection \<open>Match results saved by \<open>find_best_matches\<close>\<close>















end
